theory Spec2Isabelle
  imports Main
begin

section \<open>The Cloudflare load balancer resource\<close>

text \<open>
  A shallow embedding of \<^verbatim>\<open>cloudflare/resource_cloudflare_load_balancer.go\<close>: the
  geo-pool codec (\<^verbatim>\<open>expandGeoPools\<close>, \<^verbatim>\<open>flattenGeoPools\<close>) and the
  Create, Read, Update, Delete and Import handlers.

  Go strings are byte strings, here \<open>string\<close>. A Go \<^verbatim>\<open>map[string][]string\<close> is an
  association list whose keys are kept distinct by the code that builds it; it is read
  with \<open>map_of\<close>. The order of its entries stands for the order in which a
  \<^verbatim>\<open>range\<close> loop happens to visit them, which Go leaves open.
\<close>

subsection \<open>Data\<close>

type_synonym pools_map = "(string \<times> string list) list"

text \<open>
  One element of a \<^verbatim>\<open>pop_pools\<close> or \<^verbatim>\<open>region_pools\<close> set. In Go it is a
  \<^verbatim>\<open>map[string]interface{}\<close> with two entries, shaped by \<^verbatim>\<open>popPoolElem\<close> or
  \<^verbatim>\<open>regionPoolElem\<close>: the location attribute (named \<^verbatim>\<open>pop\<close> or \<^verbatim>\<open>region\<close>)
  holding a string, and \<^verbatim>\<open>pool_ids\<close> holding a list of strings. \<open>geo_field\<close> is the
  name of the location attribute the element carries.
\<close>

record geo_conf =
  geo_field :: string
  location :: string
  pool_ids :: "string list"

text \<open>
  A \<^verbatim>\<open>*schema.Set\<close> of such elements is represented by the list its \<^verbatim>\<open>List()\<close>
  method returns: the elements of the set, each once. The provider SDK orders that list
  by hash code; no order is assumed here, the statements below hold for every order,
  and two sets are compared through \<open>set\<close>.
\<close>

type_synonym schema_set = "geo_conf list"

text \<open>The request and response object of the remote API, \<^verbatim>\<open>cloudflare.LoadBalancer\<close>.
  \<open>Enabled\<close>, \<open>CreatedOn\<close> and \<open>ModifiedOn\<close> are pointers in Go (\<^verbatim>\<open>*bool\<close>,
  \<^verbatim>\<open>*time.Time\<close>), \<open>None\<close> is \<^verbatim>\<open>nil\<close>. A timestamp that is present is held
  in its RFC3339Nano rendering, the text \<^verbatim>\<open>Format(time.RFC3339Nano)\<close> gives.\<close>

record LoadBalancer =
  ID :: string
  CreatedOn :: "string option"
  ModifiedOn :: "string option"
  Description :: string
  Name :: string
  TTL :: int
  FallbackPool :: string
  DefaultPools :: "string list"
  RegionPools :: pools_map
  PopPools :: pools_map
  Proxied :: bool
  Enabled :: "bool option"
  Persistence :: string
  SteeringPolicy :: string

text \<open>The local state of the resource, \<^verbatim>\<open>*schema.ResourceData\<close>: the identifier
  (\<^verbatim>\<open>d.Id()\<close>) and one field for each attribute of the schema.\<close>

record ResourceData =
  resourceId :: string
  zone :: string
  zone_id :: string
  name :: string
  fallback_pool_id :: string
  default_pool_ids :: "string list"
  session_affinity :: string
  proxied :: bool
  enabled :: bool
  ttl :: int
  description :: string
  steering_policy :: string
  pop_pools :: schema_set
  region_pools :: schema_set
  created_on :: string
  modified_on :: string

text \<open>
  What the handlers return. The first eight are the errors the file builds with
  \<^verbatim>\<open>fmt.Errorf\<close> and \<^verbatim>\<open>errors.Wrap\<close>, with the values their messages are
  formatted from (\<open>Wrapped message cause\<close> is \<^verbatim>\<open>errors.Wrap(cause, message)\<close>); an
  error of the remote client is its message text. The last two are the run-time panics
  of a failed type assertion and of a nil pointer dereference.
\<close>

datatype error =
    ZoneRequired
  | FindingZone string string
  | Wrapped string string
  | MissingId
  | DuplicateLocation string string
  | InvalidId string
  | FindingZoneName string string
  | DeleteFailed string
  | TypeAssertionPanic
  | NilPointerPanic

subsection \<open>The geo-pool codec\<close>

text \<open>
  Modelled from the spec: the list helpers \<^verbatim>\<open>expandInterfaceToStringList\<close> and
  \<^verbatim>\<open>flattenStringList\<close> are called by the codec and live in another file of the
  provider. The spec has the pool-identifier list carried over "preserving list order as
  given": each helper copies its list element by element (the Go versions only change the
  static type of the elements between \<^verbatim>\<open>interface{}\<close> and \<^verbatim>\<open>string\<close>).
\<close>

primrec expandInterfaceToStringList :: "string list \<Rightarrow> string list" where
  "expandInterfaceToStringList [] = []"
| "expandInterfaceToStringList (v # list) = v # expandInterfaceToStringList list"

primrec flattenStringList :: "string list \<Rightarrow> string list" where
  "flattenStringList [] = []"
| "flattenStringList (v # list) = v # flattenStringList list"

text \<open>
  The loop of \<^verbatim>\<open>expandGeoPools\<close> over \<^verbatim>\<open>cfg\<close>, with the map built so far.
  \<^verbatim>\<open>locationConfig[geoType].(string)\<close> panics when the element has no string under
  \<^verbatim>\<open>geoType\<close>; a location already present in the map ends the loop with the
  duplicate-entry error.
\<close>

fun expandLoop :: "string \<Rightarrow> geo_conf list \<Rightarrow> pools_map \<Rightarrow> error + pools_map" where
  "expandLoop geoType [] expanded = Inr expanded"
| "expandLoop geoType (locationConfig # cfg) expanded =
     (if geo_field locationConfig \<noteq> geoType then Inl TypeAssertionPanic
      else if map_of expanded (location locationConfig) = None
      then expandLoop geoType cfg
             (expanded @ [(location locationConfig,
                           expandInterfaceToStringList (pool_ids locationConfig))])
      else Inl (DuplicateLocation geoType (location locationConfig)))"

definition expandGeoPools :: "schema_set \<Rightarrow> string \<Rightarrow> error + pools_map" where
  "expandGeoPools pool geoType = expandLoop geoType pool []"

text \<open>
  \<^verbatim>\<open>schema.NewSet\<close> with the hash of the element schema: elements with the same
  content are kept once (the hash is computed from the whole content of an element, and
  is taken to tell different contents apart).
\<close>

definition NewSet :: "geo_conf list \<Rightarrow> schema_set" where
  "NewSet items = remdups items"

fun flattenLoop :: "string \<Rightarrow> pools_map \<Rightarrow> geo_conf list \<Rightarrow> geo_conf list" where
  "flattenLoop geoType [] flattened = flattened"
| "flattenLoop geoType ((k, v) # pools) flattened =
     flattenLoop geoType pools
       (flattened @ [\<lparr>geo_field = geoType, location = k, pool_ids = flattenStringList v\<rparr>])"

definition flattenGeoPools :: "pools_map \<Rightarrow> string \<Rightarrow> schema_set" where
  "flattenGeoPools pools geoType = NewSet (flattenLoop geoType pools [])"

subsection \<open>Helpers of the Go library and of the provider SDK\<close>

text \<open>\<^verbatim>\<open>strings.HasPrefix\<close> and \<^verbatim>\<open>strings.Contains\<close>: whether \<open>substr\<close> occurs
  in \<open>s\<close>.\<close>

fun HasPrefix :: "string \<Rightarrow> string \<Rightarrow> bool" where
  "HasPrefix s [] = True"
| "HasPrefix [] (p # ps) = False"
| "HasPrefix (c # s) (p # ps) = (c = p \<and> HasPrefix s ps)"

fun Contains :: "string \<Rightarrow> string \<Rightarrow> bool" where
  "Contains [] substr = (substr = [])"
| "Contains (c # s) substr = (HasPrefix (c # s) substr \<or> Contains s substr)"

text \<open>\<^verbatim>\<open>strings.SplitN(s, sep, 2)\<close> for a separator of one byte: the text before the
  first separator and the unsplit remainder after it, or \<open>s\<close> alone when it holds no
  separator.\<close>

fun SplitN2 :: "string \<Rightarrow> char \<Rightarrow> string list" where
  "SplitN2 [] sep = [[]]"
| "SplitN2 (c # s) sep =
     (if c = sep then [[], s]
      else (case SplitN2 s sep of
              [] \<Rightarrow> []
            | head # rest \<Rightarrow> (c # head) # rest))"

text \<open>
  \<^verbatim>\<open>d.Set(key, value)\<close> returns an error when the SDK cannot store the value, and the
  state then keeps what it had. Which keys are refused is a parameter of every handler,
  \<open>rejects\<close>. \<^verbatim>\<open>d.SetId\<close> cannot fail. \<^verbatim>\<open>d.GetOk(key)\<close> reports a value as
  given when it differs from the zero value of its type: the empty string, \<open>0\<close>, the
  empty set; \<^verbatim>\<open>d.Get\<close> returns the same value.
\<close>

definition Set_attr ::
  "(string \<Rightarrow> bool) \<Rightarrow> string \<Rightarrow> (ResourceData \<Rightarrow> ResourceData) \<Rightarrow> ResourceData \<Rightarrow> ResourceData"
where
  "Set_attr rejects key write d = (if rejects key then d else write d)"

subsection \<open>The remote client\<close>

text \<open>
  The methods of \<^verbatim>\<open>*cloudflare.API\<close> the handlers call. Each answers with an error
  text (\<open>Inl\<close>) or a result; every handler calls each method at most once, so a
  function of the arguments describes any behaviour of the remote side during one
  handler. The calls a handler makes are recorded in order.
\<close>

record API =
  ZoneIDByName :: "string \<Rightarrow> string + string"
  CreateLoadBalancer :: "string \<Rightarrow> LoadBalancer \<Rightarrow> string + LoadBalancer"
  ModifyLoadBalancer :: "string \<Rightarrow> LoadBalancer \<Rightarrow> string + LoadBalancer"
  LoadBalancerDetails :: "string \<Rightarrow> string \<Rightarrow> string + LoadBalancer"
  DeleteLoadBalancer :: "string \<Rightarrow> string \<Rightarrow> string option"

datatype call =
    Call_ZoneIDByName string
  | Call_CreateLoadBalancer string LoadBalancer
  | Call_ModifyLoadBalancer string LoadBalancer
  | Call_LoadBalancerDetails string string
  | Call_DeleteLoadBalancer string string

text \<open>The result of running a handler: the error it returns (\<open>None\<close> is \<^verbatim>\<open>nil\<close>),
  the resource data as the handler leaves it, and the remote calls it made.\<close>

record outcome =
  returned :: "error option"
  state :: ResourceData
  calls :: "call list"

definition after_calls :: "call list \<Rightarrow> outcome \<Rightarrow> outcome" where
  "after_calls cs out = out\<lparr>calls := cs @ calls out\<rparr>"

subsection \<open>Read\<close>

text \<open>Lines 331 to 354: the fields of the fetched object are written into the state one
  after the other. The results of the first ten \<^verbatim>\<open>d.Set\<close> calls are dropped, those of
  the last three are only logged. \<^verbatim>\<open>*loadBalancer.Enabled\<close> dereferences the
  pointer after three fields have been written (line 334); the two \<^verbatim>\<open>Format\<close> calls
  of lines 339 and 340 dereference the timestamps, each before its own \<^verbatim>\<open>d.Set\<close>. A
  nil pointer there is a run-time panic, and the state keeps what was written so far.\<close>

definition Read_populate ::
  "(string \<Rightarrow> bool) \<Rightarrow> LoadBalancer \<Rightarrow> ResourceData \<Rightarrow> error option \<times> ResourceData"
where
  "Read_populate rejects loadBalancer d =
     (let d1 = Set_attr rejects ''name'' (\<lambda>s. s\<lparr>name := Name loadBalancer\<rparr>) d;
          d2 = Set_attr rejects ''fallback_pool_id''
                 (\<lambda>s. s\<lparr>fallback_pool_id := FallbackPool loadBalancer\<rparr>) d1;
          d3 = Set_attr rejects ''proxied'' (\<lambda>s. s\<lparr>proxied := Proxied loadBalancer\<rparr>) d2
      in case Enabled loadBalancer of
           None \<Rightarrow> (Some NilPointerPanic, d3)
         | Some en \<Rightarrow>
             (let d4 = Set_attr rejects ''enabled'' (\<lambda>s. s\<lparr>enabled := en\<rparr>) d3;
                  d5 = Set_attr rejects ''description''
                         (\<lambda>s. s\<lparr>description := Description loadBalancer\<rparr>) d4;
                  d6 = Set_attr rejects ''ttl'' (\<lambda>s. s\<lparr>ttl := TTL loadBalancer\<rparr>) d5;
                  d7 = Set_attr rejects ''steering_policy''
                         (\<lambda>s. s\<lparr>steering_policy := SteeringPolicy loadBalancer\<rparr>) d6;
                  d8 = Set_attr rejects ''session_affinity''
                         (\<lambda>s. s\<lparr>session_affinity := Persistence loadBalancer\<rparr>) d7
              in case CreatedOn loadBalancer of
                   None \<Rightarrow> (Some NilPointerPanic, d8)
                 | Some createdOn \<Rightarrow>
                     (let d9 = Set_attr rejects ''created_on''
                                 (\<lambda>s. s\<lparr>created_on := createdOn\<rparr>) d8
                      in case ModifiedOn loadBalancer of
                           None \<Rightarrow> (Some NilPointerPanic, d9)
                         | Some modifiedOn \<Rightarrow>
                             (let d10 = Set_attr rejects ''modified_on''
                                          (\<lambda>s. s\<lparr>modified_on := modifiedOn\<rparr>) d9;
                                  d11 = Set_attr rejects ''default_pool_ids''
                                          (\<lambda>s. s\<lparr>default_pool_ids :=
                                                    DefaultPools loadBalancer\<rparr>) d10;
                                  d12 = Set_attr rejects ''pop_pools''
                                          (\<lambda>s. s\<lparr>pop_pools :=
                                                    flattenGeoPools (PopPools loadBalancer)
                                                      ''pop''\<rparr>) d11;
                                  d13 = Set_attr rejects ''region_pools''
                                          (\<lambda>s. s\<lparr>region_pools :=
                                                    flattenGeoPools (RegionPools loadBalancer)
                                                      ''region''\<rparr>) d12
                              in (None, d13)))))"

definition resourceCloudflareLoadBalancerRead ::
  "API \<Rightarrow> (string \<Rightarrow> bool) \<Rightarrow> ResourceData \<Rightarrow> outcome"
where
  "resourceCloudflareLoadBalancerRead client rejects d =
     (let zoneID = zone_id d; loadBalancerID = resourceId d
      in case LoadBalancerDetails client zoneID loadBalancerID of
           Inl e \<Rightarrow>
             (if Contains e ''HTTP status 404''
              then \<lparr>returned = None, state = d\<lparr>resourceId := []\<rparr>,
                    calls = [Call_LoadBalancerDetails zoneID loadBalancerID]\<rparr>
              else \<lparr>returned = Some (Wrapped
                       (''Error reading load balancer resource from API for resource ''
                          @ zoneID @ '' in zone '' @ loadBalancerID) e),
                    state = d,
                    calls = [Call_LoadBalancerDetails zoneID loadBalancerID]\<rparr>)
         | Inr loadBalancer \<Rightarrow>
             \<lparr>returned = fst (Read_populate rejects loadBalancer d),
              state = snd (Read_populate rejects loadBalancer d),
              calls = [Call_LoadBalancerDetails zoneID loadBalancerID]\<rparr>)"

subsection \<open>Create\<close>

text \<open>Lines 187 to 221: the object sent by Create. \<^verbatim>\<open>ID\<close>, the timestamps and the
  two pool maps start at their zero values (\<^verbatim>\<open>nil\<close> for the timestamps).\<close>

definition Create_newLoadBalancer :: "ResourceData \<Rightarrow> error + LoadBalancer" where
  "Create_newLoadBalancer d =
     (let lb0 = \<lparr>ID = [], CreatedOn = None, ModifiedOn = None, Description = [],
                 Name = name d, TTL = ttl d, FallbackPool = fallback_pool_id d,
                 DefaultPools = expandInterfaceToStringList (default_pool_ids d),
                 RegionPools = [], PopPools = [], Proxied = proxied d,
                 Enabled = Some (enabled d), Persistence = session_affinity d,
                 SteeringPolicy = steering_policy d\<rparr>;
          lb1 = (if description d \<noteq> [] then lb0\<lparr>Description := description d\<rparr> else lb0);
          lb2 = (if ttl d \<noteq> 0 then lb1\<lparr>TTL := ttl d\<rparr> else lb1)
      in case (if region_pools d \<noteq> []
               then (case expandGeoPools (region_pools d) ''region'' of
                       Inl e \<Rightarrow> Inl e
                     | Inr expandedRegionPools \<Rightarrow>
                         Inr (lb2\<lparr>RegionPools := expandedRegionPools\<rparr>))
               else Inr lb2) of
           Inl e \<Rightarrow> Inl e
         | Inr lb3 \<Rightarrow>
             (if pop_pools d \<noteq> []
              then (case expandGeoPools (pop_pools d) ''pop'' of
                      Inl e \<Rightarrow> Inl e
                    | Inr expandedPopPools \<Rightarrow> Inr (lb3\<lparr>PopPools := expandedPopPools\<rparr>))
              else Inr lb3))"

text \<open>Lines 231 to 248, once the zone identifier is known.\<close>

definition Create_remote ::
  "API \<Rightarrow> (string \<Rightarrow> bool) \<Rightarrow> ResourceData \<Rightarrow> string \<Rightarrow> LoadBalancer \<Rightarrow> outcome"
where
  "Create_remote client rejects d zoneID newLoadBalancer =
     (let d1 = Set_attr rejects ''zone_id'' (\<lambda>s. s\<lparr>zone_id := zoneID\<rparr>) d
      in case CreateLoadBalancer client zoneID newLoadBalancer of
           Inl e \<Rightarrow>
             \<lparr>returned = Some (Wrapped ''error creating load balancer for zone'' e),
              state = d1, calls = [Call_CreateLoadBalancer zoneID newLoadBalancer]\<rparr>
         | Inr r \<Rightarrow>
             (if ID r = []
              then \<lparr>returned = Some MissingId, state = d1,
                    calls = [Call_CreateLoadBalancer zoneID newLoadBalancer]\<rparr>
              else after_calls [Call_CreateLoadBalancer zoneID newLoadBalancer]
                     (resourceCloudflareLoadBalancerRead client rejects
                        (d1\<lparr>resourceId := ID r\<rparr>))))"

definition resourceCloudflareLoadBalancerCreate ::
  "API \<Rightarrow> (string \<Rightarrow> bool) \<Rightarrow> ResourceData \<Rightarrow> outcome"
where
  "resourceCloudflareLoadBalancerCreate client rejects d =
     (let zoneName = zone d; zoneID = zone_id d
      in if zoneName = [] \<and> zoneID = []
         then \<lparr>returned = Some ZoneRequired, state = d, calls = []\<rparr>
         else (case Create_newLoadBalancer d of
                 Inl e \<Rightarrow> \<lparr>returned = Some e, state = d, calls = []\<rparr>
               | Inr newLoadBalancer \<Rightarrow>
                   (if zoneID = []
                    then (case ZoneIDByName client zoneName of
                            Inl e \<Rightarrow>
                              \<lparr>returned = Some (FindingZone zoneName e), state = d,
                               calls = [Call_ZoneIDByName zoneName]\<rparr>
                          | Inr found \<Rightarrow>
                              after_calls [Call_ZoneIDByName zoneName]
                                (Create_remote client rejects d found newLoadBalancer))
                    else Create_remote client rejects d zoneID newLoadBalancer)))"

subsection \<open>Update\<close>

text \<open>Lines 256 to 287: the object sent by Update.\<close>

definition Update_loadBalancer :: "ResourceData \<Rightarrow> error + LoadBalancer" where
  "Update_loadBalancer d =
     (let lb0 = \<lparr>ID = resourceId d, CreatedOn = None, ModifiedOn = None, Description = [],
                 Name = name d, TTL = ttl d, FallbackPool = fallback_pool_id d,
                 DefaultPools = expandInterfaceToStringList (default_pool_ids d),
                 RegionPools = [], PopPools = [], Proxied = proxied d,
                 Enabled = Some (enabled d), Persistence = session_affinity d,
                 SteeringPolicy = steering_policy d\<rparr>;
          lb1 = (if description d \<noteq> [] then lb0\<lparr>Description := description d\<rparr> else lb0)
      in case (if region_pools d \<noteq> []
               then (case expandGeoPools (region_pools d) ''region'' of
                       Inl e \<Rightarrow> Inl e
                     | Inr expandedRegionPools \<Rightarrow>
                         Inr (lb1\<lparr>RegionPools := expandedRegionPools\<rparr>))
               else Inr lb1) of
           Inl e \<Rightarrow> Inl e
         | Inr lb2 \<Rightarrow>
             (if pop_pools d \<noteq> []
              then (case expandGeoPools (pop_pools d) ''pop'' of
                      Inl e \<Rightarrow> Inl e
                    | Inr expandedPopPools \<Rightarrow> Inr (lb2\<lparr>PopPools := expandedPopPools\<rparr>))
              else Inr lb2))"

definition resourceCloudflareLoadBalancerUpdate ::
  "API \<Rightarrow> (string \<Rightarrow> bool) \<Rightarrow> ResourceData \<Rightarrow> outcome"
where
  "resourceCloudflareLoadBalancerUpdate client rejects d =
     (let zoneID = zone_id d
      in case Update_loadBalancer d of
           Inl e \<Rightarrow> \<lparr>returned = Some e, state = d, calls = []\<rparr>
         | Inr loadBalancer \<Rightarrow>
             (case ModifyLoadBalancer client zoneID loadBalancer of
                Inl e \<Rightarrow>
                  \<lparr>returned = Some (Wrapped ''error creating load balancer for zone'' e),
                   state = d, calls = [Call_ModifyLoadBalancer zoneID loadBalancer]\<rparr>
              | Inr r \<Rightarrow>
                  after_calls [Call_ModifyLoadBalancer zoneID loadBalancer]
                    (resourceCloudflareLoadBalancerRead client rejects d)))"

subsection \<open>Delete and Import\<close>

definition resourceCloudflareLoadBalancerDelete :: "API \<Rightarrow> ResourceData \<Rightarrow> outcome" where
  "resourceCloudflareLoadBalancerDelete client d =
     (let zoneID = zone_id d; loadBalancerID = resourceId d
      in case DeleteLoadBalancer client zoneID loadBalancerID of
           Some e \<Rightarrow> \<lparr>returned = Some (DeleteFailed e), state = d,
                      calls = [Call_DeleteLoadBalancer zoneID loadBalancerID]\<rparr>
         | None \<Rightarrow> \<lparr>returned = None, state = d,
                    calls = [Call_DeleteLoadBalancer zoneID loadBalancerID]\<rparr>)"

text \<open>Import returns the one resource it was given, updated, or an error and no
  resource; \<open>state\<close> is that resource.\<close>

definition resourceCloudflareLoadBalancerImport ::
  "API \<Rightarrow> (string \<Rightarrow> bool) \<Rightarrow> ResourceData \<Rightarrow> outcome"
where
  "resourceCloudflareLoadBalancerImport client rejects d =
     (let idAttr = SplitN2 (resourceId d) (CHR ''/'')
      in if length idAttr = 2
         then (let zoneName = idAttr ! 0; loadBalancerID = idAttr ! 1
               in case ZoneIDByName client zoneName of
                    Inl e \<Rightarrow>
                      \<lparr>returned = Some (FindingZoneName zoneName e), state = d,
                       calls = [Call_ZoneIDByName zoneName]\<rparr>
                  | Inr zoneID \<Rightarrow>
                      (let d1 = Set_attr rejects ''zone'' (\<lambda>s. s\<lparr>zone := zoneName\<rparr>) d;
                           d2 = Set_attr rejects ''zone_id'' (\<lambda>s. s\<lparr>zone_id := zoneID\<rparr>) d1
                       in \<lparr>returned = None, state = d2\<lparr>resourceId := loadBalancerID\<rparr>,
                           calls = [Call_ZoneIDByName zoneName]\<rparr>))
         else \<lparr>returned = Some (InvalidId (resourceId d)), state = d, calls = []\<rparr>)"

subsection \<open>Sample inputs\<close>

text \<open>A configuration, a remote object and a remote side with fixed answers, used to
  run the handlers on concrete inputs.\<close>

definition sample_data :: ResourceData where
  "sample_data =
     \<lparr>resourceId = [], zone = ''example.com'', zone_id = [], name = ''lb.example.com'',
      fallback_pool_id = ''p0'', default_pool_ids = [''p1'', ''p2''],
      session_affinity = ''none'', proxied = False, enabled = True, ttl = 30,
      description = ''sample'', steering_policy = ''geo'',
      pop_pools = [\<lparr>geo_field = ''pop'', location = ''LAX'', pool_ids = [''p1'', ''p2'']\<rparr>,
                   \<lparr>geo_field = ''pop'', location = ''JFK'', pool_ids = [''p3'']\<rparr>],
      region_pools = [], created_on = [], modified_on = []\<rparr>"

definition sample_balancer :: LoadBalancer where
  "sample_balancer =
     \<lparr>ID = ''abc123'', CreatedOn = Some ''2019-01-01T00:00:00Z'',
      ModifiedOn = Some ''2019-01-02T00:00:00Z'', Description = ''remote'',
      Name = ''lb.example.com'', TTL = 30, FallbackPool = ''p0'',
      DefaultPools = [''p1'', ''p2''], RegionPools = [(''WNAM'', [''p1''])],
      PopPools = [(''LAX'', [''p1'', ''p2''])], Proxied = False, Enabled = Some True,
      Persistence = ''none'', SteeringPolicy = ''geo''\<rparr>"

definition sample_client :: "(string + LoadBalancer) \<Rightarrow> (string + LoadBalancer) \<Rightarrow> API" where
  "sample_client created details =
     \<lparr>ZoneIDByName = (\<lambda>zoneName. if zoneName = ''example.com'' then Inr ''z1''
                                    else Inl ''zone could not be found''),
      CreateLoadBalancer = (\<lambda>zoneID lb. created),
      ModifyLoadBalancer = (\<lambda>zoneID lb. Inr lb),
      LoadBalancerDetails = (\<lambda>zoneID loadBalancerID. details),
      DeleteLoadBalancer = (\<lambda>zoneID loadBalancerID. None)\<rparr>"

definition no_rejects :: "string \<Rightarrow> bool" where
  "no_rejects key = False"

section \<open>Properties\<close>

subsection \<open>The list helpers and the loops of the codec\<close>

lemma expandInterfaceToStringList_id: "expandInterfaceToStringList list = list"
  by (induction list) simp_all

lemma flattenStringList_id: "flattenStringList list = list"
  by (induction list) simp_all

lemma map_of_append_None:
  "map_of (xs @ [(k, v)]) k' = None \<longleftrightarrow> map_of xs k' = None \<and> k' \<noteq> k"
  by (induction xs) auto

lemma expandLoop_Inr:
  "expandLoop g cfg acc = Inr m \<Longrightarrow>
     m = acc @ map (\<lambda>c. (location c, pool_ids c)) cfg \<and>
     (\<forall>c\<in>set cfg. geo_field c = g) \<and>
     distinct (map location cfg) \<and>
     location ` set cfg \<inter> fst ` set acc = {}"
proof (induction cfg arbitrary: acc)
  case Nil
  then show ?case by simp
next
  case (Cons c cfg)
  from Cons.prems have g: "geo_field c = g"
    and fresh: "map_of acc (location c) = None"
    and rest: "expandLoop g cfg (acc @ [(location c, pool_ids c)]) = Inr m"
    by (auto split: if_splits simp: expandInterfaceToStringList_id)
  from Cons.IH [OF rest] fresh g show ?case
    by (auto simp: map_of_eq_None_iff image_iff)
qed

lemma expandLoop_ok:
  "\<forall>c\<in>set cfg. geo_field c = g \<Longrightarrow> distinct (map location cfg) \<Longrightarrow>
   location ` set cfg \<inter> fst ` set acc = {} \<Longrightarrow>
   expandLoop g cfg acc = Inr (acc @ map (\<lambda>c. (location c, pool_ids c)) cfg)"
proof (induction cfg arbitrary: acc)
  case Nil
  then show ?case by simp
next
  case (Cons c cfg)
  have fresh: "map_of acc (location c) = None"
    using Cons.prems(3) by (auto simp: map_of_eq_None_iff)
  have "location ` set cfg \<inter> fst ` set (acc @ [(location c, pool_ids c)]) = {}"
    using Cons.prems(2,3) by auto
  with Cons.IH [of "acc @ [(location c, pool_ids c)]"] Cons.prems(1,2) fresh
  show ?case by (simp add: expandInterfaceToStringList_id)
qed

lemma expandLoop_dup:
  "\<forall>c\<in>set cfg. geo_field c = g \<Longrightarrow>
   \<not> (distinct (map location cfg) \<and> location ` set cfg \<inter> fst ` set acc = {}) \<Longrightarrow>
   \<exists>loc\<in>location ` set cfg. expandLoop g cfg acc = Inl (DuplicateLocation g loc)"
proof (induction cfg arbitrary: acc)
  case Nil
  then show ?case by simp
next
  case (Cons c cfg)
  show ?case
  proof (cases "map_of acc (location c) = None")
    case False
    with Cons.prems(1) show ?thesis by auto
  next
    case True
    then have notin: "location c \<notin> fst ` set acc" by (simp add: map_of_eq_None_iff)
    have "\<not> (distinct (map location cfg) \<and>
             location ` set cfg \<inter> fst ` set (acc @ [(location c, pool_ids c)]) = {})"
      using Cons.prems(2) notin by auto
    with Cons.IH [of "acc @ [(location c, pool_ids c)]"] Cons.prems(1)
    obtain loc where "loc \<in> location ` set cfg"
      and "expandLoop g cfg (acc @ [(location c, pool_ids c)]) = Inl (DuplicateLocation g loc)"
      by auto
    with True Cons.prems(1) show ?thesis
      by (auto simp: expandInterfaceToStringList_id)
  qed
qed

lemma flattenLoop_eq:
  "flattenLoop g pools acc =
     acc @ map (\<lambda>(k, v). \<lparr>geo_field = g, location = k, pool_ids = v\<rparr>) pools"
  by (induction g pools acc rule: flattenLoop.induct) (simp_all add: flattenStringList_id)

subsection \<open>The codec\<close>

text \<open>
  Claim C2. Let every record of the input set carry its location under \<open>geoType\<close>.
  If two records of the set have the same location key, whatever their pool identifiers
  are, \<open>expandGeoPools\<close> returns the duplicate-location error for one of the locations
  of the set; if the location keys are pairwise distinct it returns a map and no error.
\<close>

theorem expandGeoPools_duplicate_location:
  assumes "\<forall>c\<in>set pool. geo_field c = geoType"
  shows "((\<exists>i j. i < j \<and> j < length pool \<and> location (pool ! i) = location (pool ! j)) \<longrightarrow>
            (\<exists>loc\<in>location ` set pool.
                expandGeoPools pool geoType = Inl (DuplicateLocation geoType loc))) \<and>
         (distinct (map location pool) \<longrightarrow>
            (\<exists>expanded. expandGeoPools pool geoType = Inr expanded))"
proof (intro conjI impI)
  assume "\<exists>i j. i < j \<and> j < length pool \<and> location (pool ! i) = location (pool ! j)"
  then obtain i j where "i < j" "j < length pool"
    and "location (pool ! i) = location (pool ! j)" by blast
  then have "i < length (map location pool)" "j < length (map location pool)" "i \<noteq> j"
    and "map location pool ! i = map location pool ! j" by simp_all
  then have "\<not> distinct (map location pool)"
    using nth_eq_iff_index_eq by blast
  with expandLoop_dup [OF assms, of "[]"]
  show "\<exists>loc\<in>location ` set pool.
          expandGeoPools pool geoType = Inl (DuplicateLocation geoType loc)"
    by (simp add: expandGeoPools_def)
next
  assume "distinct (map location pool)"
  with expandLoop_ok [OF assms, of "[]"]
  show "\<exists>expanded. expandGeoPools pool geoType = Inr expanded"
    by (simp add: expandGeoPools_def)
qed

theorem expandGeoPools_duplicate_location_witness:
  "(\<exists>loc. expandGeoPools
      [\<lparr>geo_field = ''pop'', location = ''LAX'', pool_ids = [''p1'', ''p2'']\<rparr>,
       \<lparr>geo_field = ''pop'', location = ''LAX'', pool_ids = [''p3'']\<rparr>] ''pop''
      = Inl (DuplicateLocation ''pop'' loc)) \<and>
   (\<exists>expanded. expandGeoPools
      [\<lparr>geo_field = ''pop'', location = ''LAX'', pool_ids = [''p1'', ''p2'']\<rparr>,
       \<lparr>geo_field = ''pop'', location = ''JFK'', pool_ids = [''p3'']\<rparr>] ''pop''
      = Inr expanded)"
proof
  let ?dup = "[\<lparr>geo_field = ''pop'', location = ''LAX'', pool_ids = [''p1'', ''p2'']\<rparr>,
               \<lparr>geo_field = ''pop'', location = ''LAX'', pool_ids = [''p3'']\<rparr>]"
  have wf: "\<forall>c\<in>set ?dup. geo_field c = ''pop''" by simp
  have two: "\<exists>i j. i < j \<and> j < length ?dup \<and> location (?dup ! i) = location (?dup ! j)"
    by (rule exI [of _ 0], rule exI [of _ 1]) simp
  from expandGeoPools_duplicate_location [OF wf] two
  show "\<exists>loc. expandGeoPools ?dup ''pop'' = Inl (DuplicateLocation ''pop'' loc)"
    by blast
next
  let ?ok = "[\<lparr>geo_field = ''pop'', location = ''LAX'', pool_ids = [''p1'', ''p2'']\<rparr>,
              \<lparr>geo_field = ''pop'', location = ''JFK'', pool_ids = [''p3'']\<rparr>]"
  have wf: "\<forall>c\<in>set ?ok. geo_field c = ''pop''" by simp
  have d: "distinct (map location ?ok)" by simp
  from expandGeoPools_duplicate_location [OF wf] d
  show "\<exists>expanded. expandGeoPools ?ok ''pop'' = Inr expanded"
    by blast
qed

text \<open>
  Claim C6. For an input set with pairwise distinct location keys, \<open>expandGeoPools\<close>
  returns a map that binds the location key of every record to exactly the pool-identifier
  list of that record (the same elements in the same order), has no key besides the
  location keys of the records, and has each key once.
\<close>

theorem expandGeoPools_binds_pool_ids:
  assumes "\<forall>c\<in>set pool. geo_field c = geoType" and "distinct (map location pool)"
  shows "\<exists>expanded. expandGeoPools pool geoType = Inr expanded \<and>
           (\<forall>c\<in>set pool. map_of expanded (location c) = Some (pool_ids c)) \<and>
           dom (map_of expanded) = location ` set pool \<and>
           distinct (map fst expanded)"
proof -
  let ?m = "map (\<lambda>c. (location c, pool_ids c)) pool"
  have run: "expandGeoPools pool geoType = Inr ?m"
    using expandLoop_ok [OF assms, of "[]"] by (simp add: expandGeoPools_def)
  have keys: "map fst ?m = map location pool" by (simp add: comp_def)
  have d: "distinct (map fst ?m)" using assms(2) by (simp only: keys)
  have bind: "\<forall>c\<in>set pool. map_of ?m (location c) = Some (pool_ids c)"
  proof
    fix c assume "c \<in> set pool"
    then have "(location c, pool_ids c) \<in> set ?m" by force
    with d show "map_of ?m (location c) = Some (pool_ids c)" by simp
  qed
  have "dom (map_of ?m) = location ` set pool"
    by (simp add: dom_map_of_conv_image_fst image_image)
  with run bind d show ?thesis by blast
qed

theorem expandGeoPools_binds_pool_ids_witness:
  "\<exists>expanded. expandGeoPools
      [\<lparr>geo_field = ''pop'', location = ''LAX'', pool_ids = [''p1'', ''p2'']\<rparr>,
       \<lparr>geo_field = ''pop'', location = ''JFK'', pool_ids = [''p3'']\<rparr>] ''pop'' = Inr expanded \<and>
     map_of expanded ''LAX'' = Some [''p1'', ''p2''] \<and>
     map_of expanded ''JFK'' = Some [''p3''] \<and>
     dom (map_of expanded) = {''LAX'', ''JFK''}"
proof -
  let ?ok = "[\<lparr>geo_field = ''pop'', location = ''LAX'', pool_ids = [''p1'', ''p2'']\<rparr>,
              \<lparr>geo_field = ''pop'', location = ''JFK'', pool_ids = [''p3'']\<rparr>]"
  have wf: "\<forall>c\<in>set ?ok. geo_field c = ''pop''" by simp
  have d: "distinct (map location ?ok)" by simp
  from expandGeoPools_binds_pool_ids [OF wf d] show ?thesis by auto
qed

text \<open>
  Claim C1. For an assignment set \<open>s\<close> whose records have pairwise distinct location
  keys, expanding \<open>s\<close> succeeds and flattening the resulting map gives a set with exactly
  the records of \<open>s\<close>: equal as sets of whole records, whatever the order.
\<close>

theorem flatten_expand_same_set:
  assumes "\<forall>c\<in>set s. geo_field c = geoType" and "distinct (map location s)"
  shows "\<exists>expanded. expandGeoPools s geoType = Inr expanded \<and>
           set (flattenGeoPools expanded geoType) = set s \<and>
           distinct (flattenGeoPools expanded geoType)"
proof -
  let ?m = "map (\<lambda>c. (location c, pool_ids c)) s"
  have run: "expandGeoPools s geoType = Inr ?m"
    using expandLoop_ok [OF assms, of "[]"] by (simp add: expandGeoPools_def)
  have "map (\<lambda>(k, v). \<lparr>geo_field = geoType, location = k, pool_ids = v\<rparr>) ?m = s"
    using assms(1) by (induction s) simp_all
  then have "flattenGeoPools ?m geoType = remdups s"
    by (simp add: flattenGeoPools_def NewSet_def flattenLoop_eq)
  with run show ?thesis by simp
qed

theorem flatten_expand_same_set_witness:
  "\<exists>expanded. expandGeoPools
      [\<lparr>geo_field = ''pop'', location = ''LAX'', pool_ids = [''p1'', ''p2'']\<rparr>,
       \<lparr>geo_field = ''pop'', location = ''JFK'', pool_ids = [''p3'']\<rparr>] ''pop'' = Inr expanded \<and>
     set (flattenGeoPools expanded ''pop'') =
       {\<lparr>geo_field = ''pop'', location = ''JFK'', pool_ids = [''p3'']\<rparr>,
        \<lparr>geo_field = ''pop'', location = ''LAX'', pool_ids = [''p1'', ''p2'']\<rparr>}"
proof -
  let ?ok = "[\<lparr>geo_field = ''pop'', location = ''LAX'', pool_ids = [''p1'', ''p2'']\<rparr>,
              \<lparr>geo_field = ''pop'', location = ''JFK'', pool_ids = [''p3'']\<rparr>]"
  have wf: "\<forall>c\<in>set ?ok. geo_field c = ''pop''" by simp
  have d: "distinct (map location ?ok)" by simp
  from flatten_expand_same_set [OF wf d] show ?thesis by auto
qed

subsection \<open>Strings, calls and states\<close>

lemma HasPrefix_iff: "HasPrefix s p \<longleftrightarrow> (\<exists>q. s = p @ q)"
  by (induction s p rule: HasPrefix.induct) auto

lemma Contains_iff: "Contains s substr \<longleftrightarrow> (\<exists>p q. s = p @ substr @ q)"
proof (induction s)
  case Nil
  then show ?case by auto
next
  case (Cons c s)
  show ?case
  proof
    assume "Contains (c # s) substr"
    then consider "HasPrefix (c # s) substr" | "Contains s substr" by auto
    then show "\<exists>p q. c # s = p @ substr @ q"
    proof cases
      case 1
      then obtain q where "c # s = substr @ q" by (auto simp: HasPrefix_iff)
      then have "c # s = [] @ substr @ q" by simp
      then show ?thesis by blast
    next
      case 2
      with Cons.IH obtain p q where "s = p @ substr @ q" by blast
      then have "c # s = (c # p) @ substr @ q" by simp
      then show ?thesis by blast
    qed
  next
    assume "\<exists>p q. c # s = p @ substr @ q"
    then obtain p q where eq: "c # s = p @ substr @ q" by blast
    show "Contains (c # s) substr"
    proof (cases p)
      case Nil
      with eq have "HasPrefix (c # s) substr" by (auto simp: HasPrefix_iff)
      then show ?thesis by simp
    next
      case (Cons a p')
      with eq have "s = p' @ substr @ q" by simp
      with Cons.IH have "Contains s substr" by blast
      then show ?thesis by simp
    qed
  qed
qed

lemma SplitN2_no_sep: "sep \<notin> set s \<Longrightarrow> SplitN2 s sep = [s]"
  by (induction s) auto

lemma SplitN2_first_sep: "sep \<notin> set a \<Longrightarrow> SplitN2 (a @ sep # b) sep = [a, b]"
  by (induction a) auto

lemma Read_calls:
  "calls (resourceCloudflareLoadBalancerRead client rejects d) =
     [Call_LoadBalancerDetails (zone_id d) (resourceId d)]"
  by (simp add: resourceCloudflareLoadBalancerRead_def Let_def split: sum.splits)

lemma Create_remote_calls:
  "set (calls (Create_remote client rejects d zoneID lb)) \<subseteq>
     {Call_CreateLoadBalancer zoneID lb} \<union> range (\<lambda>(z, i). Call_LoadBalancerDetails z i)"
  by (auto simp: Create_remote_def after_calls_def Read_calls Let_def split: sum.splits)

lemma Create_remote_first_call:
  "Call_CreateLoadBalancer zoneID lb \<in> set (calls (Create_remote client rejects d zoneID lb))"
  by (auto simp: Create_remote_def after_calls_def Let_def split: sum.splits)

lemma Create_remote_MissingId:
  "CreateLoadBalancer client zoneID lb = Inr r \<Longrightarrow> ID r = [] \<Longrightarrow>
   returned (Create_remote client rejects d zoneID lb) = Some MissingId \<and>
   resourceId (state (Create_remote client rejects d zoneID lb)) = resourceId d"
  by (simp add: Create_remote_def Set_attr_def)

subsection \<open>The zone check of Create\<close>

text \<open>
  Claim C4. When both the zone name and the zone identifier of the configuration are
  empty, Create returns the error "either zone name or ID must be provided", makes no
  remote call and leaves the resource data as it was.
\<close>

theorem Create_without_zone_fails_first:
  assumes "zone d = []" and "zone_id d = []"
  shows "resourceCloudflareLoadBalancerCreate client rejects d =
           \<lparr>returned = Some ZoneRequired, state = d, calls = []\<rparr>"
  using assms by (simp add: resourceCloudflareLoadBalancerCreate_def)

theorem Create_without_zone_fails_first_witness:
  "resourceCloudflareLoadBalancerCreate (sample_client (Inr sample_balancer) (Inr sample_balancer))
     (\<lambda>key. False) (sample_data\<lparr>zone := []\<rparr>) =
   \<lparr>returned = Some ZoneRequired, state = sample_data\<lparr>zone := []\<rparr>, calls = []\<rparr>"
proof -
  have "zone (sample_data\<lparr>zone := []\<rparr>) = []" by simp
  moreover have "zone_id (sample_data\<lparr>zone := []\<rparr>) = []" by (simp add: sample_data_def)
  ultimately show ?thesis by (rule Create_without_zone_fails_first)
qed

subsection \<open>Read\<close>

text \<open>
  Claim C5. When the details lookup of Read fails, then: if the error text contains
  \<^verbatim>\<open>HTTP status 404\<close>, Read sets the identifier to the empty string, changes nothing
  else and returns no error; otherwise Read returns the error wrapped with its context and
  leaves the resource data, the identifier included, unchanged.
\<close>

theorem Read_lookup_failure:
  assumes "LoadBalancerDetails client (zone_id d) (resourceId d) = Inl e"
  shows "(Contains e ''HTTP status 404'' \<longrightarrow>
            returned (resourceCloudflareLoadBalancerRead client rejects d) = None \<and>
            state (resourceCloudflareLoadBalancerRead client rejects d) = d\<lparr>resourceId := []\<rparr>) \<and>
         (\<not> Contains e ''HTTP status 404'' \<longrightarrow>
            returned (resourceCloudflareLoadBalancerRead client rejects d) =
              Some (Wrapped (''Error reading load balancer resource from API for resource ''
                               @ zone_id d @ '' in zone '' @ resourceId d) e) \<and>
            state (resourceCloudflareLoadBalancerRead client rejects d) = d)"
  using assms by (simp add: resourceCloudflareLoadBalancerRead_def Let_def)

theorem Read_lookup_failure_witness:
  "returned (resourceCloudflareLoadBalancerRead
       (sample_client (Inr sample_balancer) (Inl ''error from makeRequest: HTTP status 404: not found''))
       (\<lambda>key. False) (sample_data\<lparr>resourceId := ''abc123''\<rparr>)) = None \<and>
   resourceId (state (resourceCloudflareLoadBalancerRead
       (sample_client (Inr sample_balancer) (Inl ''error from makeRequest: HTTP status 404: not found''))
       (\<lambda>key. False) (sample_data\<lparr>resourceId := ''abc123''\<rparr>))) = [] \<and>
   returned (resourceCloudflareLoadBalancerRead
       (sample_client (Inr sample_balancer) (Inl ''HTTP status 500: internal error''))
       (\<lambda>key. False) (sample_data\<lparr>resourceId := ''abc123''\<rparr>)) \<noteq> None \<and>
   resourceId (state (resourceCloudflareLoadBalancerRead
       (sample_client (Inr sample_balancer) (Inl ''HTTP status 500: internal error''))
       (\<lambda>key. False) (sample_data\<lparr>resourceId := ''abc123''\<rparr>))) = ''abc123''"
proof -
  let ?d = "sample_data\<lparr>resourceId := ''abc123''\<rparr>"
  let ?gone = "sample_client (Inr sample_balancer)
                 (Inl ''error from makeRequest: HTTP status 404: not found'')"
  let ?down = "sample_client (Inr sample_balancer) (Inl ''HTTP status 500: internal error'')"
  have gone: "LoadBalancerDetails ?gone (zone_id ?d) (resourceId ?d) =
                Inl ''error from makeRequest: HTTP status 404: not found''"
    by (simp add: sample_client_def)
  have down: "LoadBalancerDetails ?down (zone_id ?d) (resourceId ?d) =
                Inl ''HTTP status 500: internal error''"
    by (simp add: sample_client_def)
  have c1: "Contains ''error from makeRequest: HTTP status 404: not found'' ''HTTP status 404''"
    by simp
  have c2: "\<not> Contains ''HTTP status 500: internal error'' ''HTTP status 404''"
    by simp
  from Read_lookup_failure [OF gone, of "\<lambda>key. False"] c1
  have A: "returned (resourceCloudflareLoadBalancerRead ?gone (\<lambda>key. False) ?d) = None"
    and B: "state (resourceCloudflareLoadBalancerRead ?gone (\<lambda>key. False) ?d) =
              ?d\<lparr>resourceId := []\<rparr>"
    by blast+
  from Read_lookup_failure [OF down, of "\<lambda>key. False"] c2
  have C: "returned (resourceCloudflareLoadBalancerRead ?down (\<lambda>key. False) ?d) \<noteq> None"
    and D: "state (resourceCloudflareLoadBalancerRead ?down (\<lambda>key. False) ?d) = ?d"
    by simp_all
  show ?thesis
    by (simp only: A B C D) simp
qed

lemma Set_attr_as_update:
  "Set_attr rejects key (\<lambda>s. s\<lparr>name := v1\<rparr>) d =
     d\<lparr>name := if rejects key then name d else v1\<rparr>"
  "Set_attr rejects key (\<lambda>s. s\<lparr>fallback_pool_id := v1\<rparr>) d =
     d\<lparr>fallback_pool_id := if rejects key then fallback_pool_id d else v1\<rparr>"
  "Set_attr rejects key (\<lambda>s. s\<lparr>proxied := v2\<rparr>) d =
     d\<lparr>proxied := if rejects key then proxied d else v2\<rparr>"
  "Set_attr rejects key (\<lambda>s. s\<lparr>enabled := v2\<rparr>) d =
     d\<lparr>enabled := if rejects key then enabled d else v2\<rparr>"
  "Set_attr rejects key (\<lambda>s. s\<lparr>description := v1\<rparr>) d =
     d\<lparr>description := if rejects key then description d else v1\<rparr>"
  "Set_attr rejects key (\<lambda>s. s\<lparr>ttl := v3\<rparr>) d =
     d\<lparr>ttl := if rejects key then ttl d else v3\<rparr>"
  "Set_attr rejects key (\<lambda>s. s\<lparr>steering_policy := v1\<rparr>) d =
     d\<lparr>steering_policy := if rejects key then steering_policy d else v1\<rparr>"
  "Set_attr rejects key (\<lambda>s. s\<lparr>session_affinity := v1\<rparr>) d =
     d\<lparr>session_affinity := if rejects key then session_affinity d else v1\<rparr>"
  "Set_attr rejects key (\<lambda>s. s\<lparr>created_on := v1\<rparr>) d =
     d\<lparr>created_on := if rejects key then created_on d else v1\<rparr>"
  "Set_attr rejects key (\<lambda>s. s\<lparr>modified_on := v1\<rparr>) d =
     d\<lparr>modified_on := if rejects key then modified_on d else v1\<rparr>"
  "Set_attr rejects key (\<lambda>s. s\<lparr>default_pool_ids := v4\<rparr>) d =
     d\<lparr>default_pool_ids := if rejects key then default_pool_ids d else v4\<rparr>"
  "Set_attr rejects key (\<lambda>s. s\<lparr>pop_pools := v5\<rparr>) d =
     d\<lparr>pop_pools := if rejects key then pop_pools d else v5\<rparr>"
  "Set_attr rejects key (\<lambda>s. s\<lparr>region_pools := v5\<rparr>) d =
     d\<lparr>region_pools := if rejects key then region_pools d else v5\<rparr>"
  by (simp_all add: Set_attr_def)

lemma Read_populate_complete:
  assumes "Enabled lb = Some en" and "CreatedOn lb = Some createdOn"
    and "ModifiedOn lb = Some modifiedOn"
  shows "Read_populate rejects lb d =
    (None,
     d\<lparr>name := if rejects ''name'' then name d else Name lb,
       fallback_pool_id :=
         if rejects ''fallback_pool_id'' then fallback_pool_id d else FallbackPool lb,
       proxied := if rejects ''proxied'' then proxied d else Proxied lb,
       enabled := if rejects ''enabled'' then enabled d else en,
       description := if rejects ''description'' then description d else Description lb,
       ttl := if rejects ''ttl'' then ttl d else TTL lb,
       steering_policy :=
         if rejects ''steering_policy'' then steering_policy d else SteeringPolicy lb,
       session_affinity :=
         if rejects ''session_affinity'' then session_affinity d else Persistence lb,
       created_on := if rejects ''created_on'' then created_on d else createdOn,
       modified_on := if rejects ''modified_on'' then modified_on d else modifiedOn,
       default_pool_ids :=
         if rejects ''default_pool_ids'' then default_pool_ids d else DefaultPools lb,
       pop_pools :=
         if rejects ''pop_pools'' then pop_pools d else flattenGeoPools (PopPools lb) ''pop'',
       region_pools :=
         if rejects ''region_pools'' then region_pools d
         else flattenGeoPools (RegionPools lb) ''region''\<rparr>)"
  using assms by (simp add: Read_populate_def Let_def Set_attr_as_update)

text \<open>
  Claim C9, as the code has it. When the details lookup succeeds and the fetched object
  carries its \<^verbatim>\<open>enabled\<close> flag and both timestamps (the three pointers Read
  dereferences), Read returns no error whichever \<^verbatim>\<open>d.Set\<close> calls fail; \<open>rejects\<close>
  is arbitrary, so this covers failures on \<^verbatim>\<open>default_pool_ids\<close>, \<^verbatim>\<open>pop_pools\<close>
  and \<^verbatim>\<open>region_pools\<close>. No failure stops the operation: every attribute whose write
  is not refused gets the fetched value, every refused one keeps its old value, and Read
  makes the one remote call.
\<close>

theorem Read_ignores_Set_failures:
  assumes "LoadBalancerDetails client (zone_id d) (resourceId d) = Inr loadBalancer"
    and "Enabled loadBalancer = Some en"
    and "CreatedOn loadBalancer = Some createdOn"
    and "ModifiedOn loadBalancer = Some modifiedOn"
  shows "resourceCloudflareLoadBalancerRead client rejects d =
    \<lparr>returned = None,
     state =
       d\<lparr>name := if rejects ''name'' then name d else Name loadBalancer,
         fallback_pool_id :=
           if rejects ''fallback_pool_id'' then fallback_pool_id d
           else FallbackPool loadBalancer,
         proxied := if rejects ''proxied'' then proxied d else Proxied loadBalancer,
         enabled := if rejects ''enabled'' then enabled d else en,
         description :=
           if rejects ''description'' then description d else Description loadBalancer,
         ttl := if rejects ''ttl'' then ttl d else TTL loadBalancer,
         steering_policy :=
           if rejects ''steering_policy'' then steering_policy d
           else SteeringPolicy loadBalancer,
         session_affinity :=
           if rejects ''session_affinity'' then session_affinity d
           else Persistence loadBalancer,
         created_on := if rejects ''created_on'' then created_on d else createdOn,
         modified_on := if rejects ''modified_on'' then modified_on d else modifiedOn,
         default_pool_ids :=
           if rejects ''default_pool_ids'' then default_pool_ids d
           else DefaultPools loadBalancer,
         pop_pools :=
           if rejects ''pop_pools'' then pop_pools d
           else flattenGeoPools (PopPools loadBalancer) ''pop'',
         region_pools :=
           if rejects ''region_pools'' then region_pools d
           else flattenGeoPools (RegionPools loadBalancer) ''region''\<rparr>,
     calls = [Call_LoadBalancerDetails (zone_id d) (resourceId d)]\<rparr>"
  using assms(1) Read_populate_complete [OF assms(2-4), of rejects d]
  by (simp only: resourceCloudflareLoadBalancerRead_def Let_def sum.case fst_conv snd_conv)

theorem Read_ignores_Set_failures_witness:
  "returned (resourceCloudflareLoadBalancerRead
      (sample_client (Inr sample_balancer) (Inr sample_balancer))
      (\<lambda>key. key = ''default_pool_ids'' \<or> key = ''pop_pools'')
      (sample_data\<lparr>resourceId := ''abc123''\<rparr>)) = None \<and>
   default_pool_ids (state (resourceCloudflareLoadBalancerRead
      (sample_client (Inr sample_balancer) (Inr sample_balancer))
      (\<lambda>key. key = ''default_pool_ids'' \<or> key = ''pop_pools'')
      (sample_data\<lparr>resourceId := ''abc123''\<rparr>))) = [''p1'', ''p2''] \<and>
   description (state (resourceCloudflareLoadBalancerRead
      (sample_client (Inr sample_balancer) (Inr sample_balancer))
      (\<lambda>key. key = ''default_pool_ids'' \<or> key = ''pop_pools'')
      (sample_data\<lparr>resourceId := ''abc123''\<rparr>))) = ''remote'' \<and>
   region_pools (state (resourceCloudflareLoadBalancerRead
      (sample_client (Inr sample_balancer) (Inr sample_balancer))
      (\<lambda>key. key = ''default_pool_ids'' \<or> key = ''pop_pools'')
      (sample_data\<lparr>resourceId := ''abc123''\<rparr>))) =
     [\<lparr>geo_field = ''region'', location = ''WNAM'', pool_ids = [''p1'']\<rparr>]"
proof -
  let ?d = "sample_data\<lparr>resourceId := ''abc123''\<rparr>"
  let ?c = "sample_client (Inr sample_balancer) (Inr sample_balancer)"
  let ?rejects = "\<lambda>key. key = ''default_pool_ids'' \<or> key = ''pop_pools''"
  have a: "LoadBalancerDetails ?c (zone_id ?d) (resourceId ?d) = Inr sample_balancer"
    by (simp add: sample_client_def)
  have b: "Enabled sample_balancer = Some True"
    and c: "CreatedOn sample_balancer = Some ''2019-01-01T00:00:00Z''"
    and m: "ModifiedOn sample_balancer = Some ''2019-01-02T00:00:00Z''"
    by (simp_all add: sample_balancer_def)
  have f: "flattenGeoPools (RegionPools sample_balancer) ''region'' =
             [\<lparr>geo_field = ''region'', location = ''WNAM'', pool_ids = [''p1'']\<rparr>]"
    by (simp add: sample_balancer_def flattenGeoPools_def NewSet_def)
  have g: "Description sample_balancer = ''remote''"
    and h: "default_pool_ids ?d = [''p1'', ''p2'']"
    by (simp_all add: sample_balancer_def sample_data_def)
  show ?thesis
    by (simp add: Read_ignores_Set_failures [OF a b c m, of ?rejects] f g h)
qed

text \<open>
  Claim C9 as written, for every successful fetch, fails when the fetched object lacks one
  of the three pointers: Read then ends in a nil pointer dereference at line 334, 339 or
  340 and returns nothing.
\<close>

theorem Read_panics_on_nil_pointer:
  "LoadBalancerDetails
      (sample_client (Inr sample_balancer) (Inr (sample_balancer\<lparr>Enabled := None\<rparr>)))
      (zone_id (sample_data\<lparr>resourceId := ''abc123''\<rparr>))
      (resourceId (sample_data\<lparr>resourceId := ''abc123''\<rparr>)) =
     Inr (sample_balancer\<lparr>Enabled := None\<rparr>) \<and>
   returned (resourceCloudflareLoadBalancerRead
      (sample_client (Inr sample_balancer) (Inr (sample_balancer\<lparr>Enabled := None\<rparr>)))
      no_rejects (sample_data\<lparr>resourceId := ''abc123''\<rparr>)) = Some NilPointerPanic \<and>
   returned (resourceCloudflareLoadBalancerRead
      (sample_client (Inr sample_balancer) (Inr (sample_balancer\<lparr>CreatedOn := None\<rparr>)))
      no_rejects (sample_data\<lparr>resourceId := ''abc123''\<rparr>)) = Some NilPointerPanic \<and>
   returned (resourceCloudflareLoadBalancerRead
      (sample_client (Inr sample_balancer) (Inr (sample_balancer\<lparr>ModifiedOn := None\<rparr>)))
      no_rejects (sample_data\<lparr>resourceId := ''abc123''\<rparr>)) = Some NilPointerPanic"
  by (simp add: resourceCloudflareLoadBalancerRead_def Read_populate_def Let_def
                sample_client_def sample_balancer_def)

subsection \<open>The creation request and its answer\<close>

lemma after_calls_simps:
  "returned (after_calls cs out) = returned out"
  "state (after_calls cs out) = state out"
  "calls (after_calls cs out) = cs @ calls out"
  by (simp_all add: after_calls_def)

lemma Create_calls_cases:
  "calls (resourceCloudflareLoadBalancerCreate client rejects d) = [] \<and>
     (zone d = [] \<and> zone_id d = [] \<or> (\<exists>e. Create_newLoadBalancer d = Inl e)) \<or>
   (\<exists>lb e. Create_newLoadBalancer d = Inr lb \<and> zone_id d = [] \<and> zone d \<noteq> [] \<and>
      ZoneIDByName client (zone d) = Inl e \<and>
      resourceCloudflareLoadBalancerCreate client rejects d =
        \<lparr>returned = Some (FindingZone (zone d) e), state = d,
         calls = [Call_ZoneIDByName (zone d)]\<rparr>) \<or>
   (\<exists>lb found. Create_newLoadBalancer d = Inr lb \<and> zone_id d = [] \<and> zone d \<noteq> [] \<and>
      ZoneIDByName client (zone d) = Inr found \<and>
      resourceCloudflareLoadBalancerCreate client rejects d =
        after_calls [Call_ZoneIDByName (zone d)] (Create_remote client rejects d found lb)) \<or>
   (\<exists>lb. Create_newLoadBalancer d = Inr lb \<and> zone_id d \<noteq> [] \<and>
      resourceCloudflareLoadBalancerCreate client rejects d =
        Create_remote client rejects d (zone_id d) lb)"
  by (cases "Create_newLoadBalancer d"; cases "ZoneIDByName client (zone d)")
     (auto simp: resourceCloudflareLoadBalancerCreate_def Let_def)

lemma Create_remote_create_call:
  "Call_CreateLoadBalancer z sent \<in> set (calls (Create_remote client rejects d zoneID lb)) \<Longrightarrow>
   z = zoneID \<and> sent = lb"
  using Create_remote_calls [of client rejects d zoneID lb] by auto

lemma Create_remote_no_lookup:
  "Call_ZoneIDByName n \<notin> set (calls (Create_remote client rejects d zoneID lb))"
  using Create_remote_calls [of client rejects d zoneID lb] by auto

text \<open>
  Claim C8. When Create has sent its creation request and the remote side answered
  without error but with an empty identifier, Create returns the error "failed to find id
  in Create response" and the identifier of the resource data is what it was before.
\<close>

theorem Create_empty_response_id:
  assumes "Call_CreateLoadBalancer zoneID sent \<in>
             set (calls (resourceCloudflareLoadBalancerCreate client rejects d))"
    and "CreateLoadBalancer client zoneID sent = Inr r"
    and "ID r = []"
  shows "returned (resourceCloudflareLoadBalancerCreate client rejects d) = Some MissingId \<and>
         resourceId (state (resourceCloudflareLoadBalancerCreate client rejects d)) = resourceId d"
proof -
  let ?run = "resourceCloudflareLoadBalancerCreate client rejects d"
  from Create_calls_cases [of client rejects d] assms(1)
  consider (looked_up) lb found where
      "?run = after_calls [Call_ZoneIDByName (zone d)] (Create_remote client rejects d found lb)"
    | (given) lb where "?run = Create_remote client rejects d (zone_id d) lb"
    by auto
  then show ?thesis
  proof cases
    case looked_up
    with assms(1) have "Call_CreateLoadBalancer zoneID sent \<in>
        set (calls (Create_remote client rejects d found lb))"
      by (simp add: after_calls_simps)
    then have "zoneID = found" "sent = lb" by (auto dest: Create_remote_create_call)
    with assms(2,3) looked_up show ?thesis
      by (simp add: after_calls_simps Create_remote_MissingId)
  next
    case given
    with assms(1) have "zoneID = zone_id d" "sent = lb"
      by (auto dest: Create_remote_create_call)
    with assms(2,3) given show ?thesis
      by (simp add: Create_remote_MissingId)
  qed
qed

lemma sample_request:
  "Create_newLoadBalancer sample_data =
     Inr \<lparr>ID = [], CreatedOn = None, ModifiedOn = None, Description = ''sample'',
          Name = ''lb.example.com'', TTL = 30, FallbackPool = ''p0'',
          DefaultPools = [''p1'', ''p2''], RegionPools = [],
          PopPools = [(''LAX'', [''p1'', ''p2'']), (''JFK'', [''p3''])],
          Proxied = False, Enabled = Some True, Persistence = ''none'',
          SteeringPolicy = ''geo''\<rparr>"
  by (simp add: Create_newLoadBalancer_def sample_data_def expandGeoPools_def)

theorem Create_empty_response_id_witness:
  "returned (resourceCloudflareLoadBalancerCreate
      (sample_client (Inr (sample_balancer\<lparr>ID := []\<rparr>)) (Inr sample_balancer))
      no_rejects sample_data) = Some MissingId \<and>
   resourceId (state (resourceCloudflareLoadBalancerCreate
      (sample_client (Inr (sample_balancer\<lparr>ID := []\<rparr>)) (Inr sample_balancer))
      no_rejects sample_data)) = []"
proof -
  let ?c = "sample_client (Inr (sample_balancer\<lparr>ID := []\<rparr>)) (Inr sample_balancer)"
  obtain lb where lb: "Create_newLoadBalancer sample_data = Inr lb"
    using sample_request by blast
  have z: "zone sample_data = ''example.com''" "zone_id sample_data = []"
    by (simp_all add: sample_data_def)
  have run: "resourceCloudflareLoadBalancerCreate ?c no_rejects sample_data =
      after_calls [Call_ZoneIDByName ''example.com'']
        (Create_remote ?c no_rejects sample_data ''z1'' lb)"
  proof -
    have "ZoneIDByName ?c ''example.com'' = Inr ''z1''" by (simp add: sample_client_def)
    then show ?thesis
      by (simp add: resourceCloudflareLoadBalancerCreate_def Let_def lb z)
  qed
  have sent: "Call_CreateLoadBalancer ''z1'' lb \<in>
      set (calls (resourceCloudflareLoadBalancerCreate ?c no_rejects sample_data))"
    by (simp add: run after_calls_simps Create_remote_first_call)
  have answer: "CreateLoadBalancer ?c ''z1'' lb = Inr (sample_balancer\<lparr>ID := []\<rparr>)"
    by (simp add: sample_client_def)
  have empty: "ID (sample_balancer\<lparr>ID := []\<rparr>) = []" by simp
  have "resourceId sample_data = []" by (simp add: sample_data_def)
  with Create_empty_response_id [OF sent answer empty] show ?thesis by simp
qed

subsection \<open>Update\<close>

lemma Update_calls_cases:
  "Call_ModifyLoadBalancer zoneID sent \<in>
      set (calls (resourceCloudflareLoadBalancerUpdate client rejects d)) \<Longrightarrow>
   Update_loadBalancer d = Inr sent \<and> zoneID = zone_id d"
  by (auto simp: resourceCloudflareLoadBalancerUpdate_def Let_def after_calls_simps Read_calls
           split: sum.splits)

lemma Create_sends_newLoadBalancer:
  assumes "Call_CreateLoadBalancer zoneID sent \<in>
      set (calls (resourceCloudflareLoadBalancerCreate client rejects d))"
  shows "Create_newLoadBalancer d = Inr sent"
proof -
  let ?run = "resourceCloudflareLoadBalancerCreate client rejects d"
  from Create_calls_cases [of client rejects d] assms
  consider (looked_up) lb found where "Create_newLoadBalancer d = Inr lb"
      "?run = after_calls [Call_ZoneIDByName (zone d)] (Create_remote client rejects d found lb)"
    | (given) lb where "Create_newLoadBalancer d = Inr lb"
      "?run = Create_remote client rejects d (zone_id d) lb"
    by auto
  then show ?thesis
  proof cases
    case looked_up
    with assms show ?thesis
      by (auto simp: after_calls_simps dest: Create_remote_create_call)
  next
    case given
    with assms show ?thesis by (auto dest: Create_remote_create_call)
  qed
qed

lemma Update_loadBalancer_eq:
  "Update_loadBalancer d =
     (case Create_newLoadBalancer d of
        Inl e \<Rightarrow> Inl e
      | Inr newLoadBalancer \<Rightarrow> Inr (newLoadBalancer\<lparr>ID := resourceId d\<rparr>))"
  by (cases "expandGeoPools (region_pools d) ''region''";
      cases "expandGeoPools (pop_pools d) ''pop''")
     (simp_all add: Update_loadBalancer_def Create_newLoadBalancer_def Let_def)

text \<open>
  Claim C7. The object Update builds is the object Create builds from the same resource
  data with \<open>ID\<close> set to the identifier of the resource, and both fail with the same error
  when a geo-pool set has a duplicate location. Hence every request Update sends to
  \<^verbatim>\<open>ModifyLoadBalancer\<close> equals, field for field, the object that Create would send
  to \<^verbatim>\<open>CreateLoadBalancer\<close>, except for \<open>ID\<close>.
\<close>

theorem Update_sends_Create_object_with_ID:
  "Update_loadBalancer d =
     (case Create_newLoadBalancer d of
        Inl e \<Rightarrow> Inl e
      | Inr newLoadBalancer \<Rightarrow> Inr (newLoadBalancer\<lparr>ID := resourceId d\<rparr>)) \<and>
   (\<forall>zoneID sent.
      Call_ModifyLoadBalancer zoneID sent \<in>
        set (calls (resourceCloudflareLoadBalancerUpdate client rejects d)) \<longrightarrow>
      (\<exists>newLoadBalancer. Create_newLoadBalancer d = Inr newLoadBalancer \<and>
         sent = newLoadBalancer\<lparr>ID := resourceId d\<rparr>)) \<and>
   (\<forall>zoneID sent.
      Call_CreateLoadBalancer zoneID sent \<in>
        set (calls (resourceCloudflareLoadBalancerCreate client' rejects' d)) \<longrightarrow>
      Create_newLoadBalancer d = Inr sent)"
proof (intro conjI allI impI)
  show "Update_loadBalancer d =
     (case Create_newLoadBalancer d of
        Inl e \<Rightarrow> Inl e
      | Inr newLoadBalancer \<Rightarrow> Inr (newLoadBalancer\<lparr>ID := resourceId d\<rparr>))"
    by (rule Update_loadBalancer_eq)
next
  fix zoneID sent
  assume "Call_ModifyLoadBalancer zoneID sent \<in>
        set (calls (resourceCloudflareLoadBalancerUpdate client rejects d))"
  then have "Update_loadBalancer d = Inr sent" by (simp add: Update_calls_cases)
  then show "\<exists>newLoadBalancer. Create_newLoadBalancer d = Inr newLoadBalancer \<and>
         sent = newLoadBalancer\<lparr>ID := resourceId d\<rparr>"
    by (auto simp: Update_loadBalancer_eq split: sum.splits)
next
  fix zoneID sent
  assume "Call_CreateLoadBalancer zoneID sent \<in>
        set (calls (resourceCloudflareLoadBalancerCreate client' rejects' d))"
  then show "Create_newLoadBalancer d = Inr sent" by (rule Create_sends_newLoadBalancer)
qed

theorem Update_sends_Create_object_with_ID_witness:
  "\<exists>newLoadBalancer.
     Create_newLoadBalancer (sample_data\<lparr>resourceId := ''abc123'', zone_id := ''z1''\<rparr>) =
       Inr newLoadBalancer \<and>
     ID newLoadBalancer = [] \<and>
     calls (resourceCloudflareLoadBalancerUpdate
              (sample_client (Inr sample_balancer) (Inr sample_balancer)) no_rejects
              (sample_data\<lparr>resourceId := ''abc123'', zone_id := ''z1''\<rparr>)) =
       [Call_ModifyLoadBalancer ''z1'' (newLoadBalancer\<lparr>ID := ''abc123''\<rparr>),
        Call_LoadBalancerDetails ''z1'' ''abc123'']"
proof -
  let ?d = "sample_data\<lparr>resourceId := ''abc123'', zone_id := ''z1''\<rparr>"
  let ?c = "sample_client (Inr sample_balancer) (Inr sample_balancer)"
  have same: "Create_newLoadBalancer ?d = Create_newLoadBalancer sample_data"
    by (simp add: Create_newLoadBalancer_def sample_data_def)
  then obtain lb where lb: "Create_newLoadBalancer ?d = Inr lb" and "ID lb = []"
    using sample_request by simp
  from Update_sends_Create_object_with_ID [of ?d ?c no_rejects ?c no_rejects] lb
  have sent: "Update_loadBalancer ?d = Inr (lb\<lparr>ID := ''abc123''\<rparr>)" by simp
  have "ModifyLoadBalancer ?c ''z1'' (lb\<lparr>ID := ''abc123''\<rparr>) = Inr (lb\<lparr>ID := ''abc123''\<rparr>)"
    by (simp add: sample_client_def)
  then have "calls (resourceCloudflareLoadBalancerUpdate ?c no_rejects ?d) =
       [Call_ModifyLoadBalancer ''z1'' (lb\<lparr>ID := ''abc123''\<rparr>),
        Call_LoadBalancerDetails ''z1'' ''abc123'']"
    by (simp add: resourceCloudflareLoadBalancerUpdate_def Let_def sent after_calls_simps
                  Read_calls)
  with lb \<open>ID lb = []\<close> show ?thesis by blast
qed

subsection \<open>Import\<close>

text \<open>
  Claim C3. Import splits the identifier at its first \<^verbatim>\<open>/\<close> only. For
  \<^verbatim>\<open>myzone/abc123\<close> it looks up the zone \<^verbatim>\<open>myzone\<close> and, when the lookup
  succeeds, sets the identifier to \<^verbatim>\<open>abc123\<close>; in general everything after the first
  separator, further separators included, becomes the identifier. For an identifier without
  separator Import returns the invalid-id error, makes no remote call and changes nothing.
\<close>

theorem Import_splits_on_first_separator:
  "(resourceId d = ''myzone/abc123'' \<longrightarrow>
      calls (resourceCloudflareLoadBalancerImport client rejects d) =
        [Call_ZoneIDByName ''myzone''] \<and>
      (\<forall>zoneID. ZoneIDByName client ''myzone'' = Inr zoneID \<longrightarrow>
         returned (resourceCloudflareLoadBalancerImport client rejects d) = None \<and>
         resourceId (state (resourceCloudflareLoadBalancerImport client rejects d)) = ''abc123'' \<and>
         (\<not> rejects ''zone'' \<longrightarrow>
            zone (state (resourceCloudflareLoadBalancerImport client rejects d)) = ''myzone''))) \<and>
   (CHR ''/'' \<notin> set zoneName \<and> resourceId d = zoneName @ ''/'' @ rest \<longrightarrow>
      calls (resourceCloudflareLoadBalancerImport client rejects d) =
        [Call_ZoneIDByName zoneName] \<and>
      (\<forall>zoneID. ZoneIDByName client zoneName = Inr zoneID \<longrightarrow>
         returned (resourceCloudflareLoadBalancerImport client rejects d) = None \<and>
         resourceId (state (resourceCloudflareLoadBalancerImport client rejects d)) = rest \<and>
         (\<not> rejects ''zone'' \<longrightarrow>
            zone (state (resourceCloudflareLoadBalancerImport client rejects d)) = zoneName))) \<and>
   (CHR ''/'' \<notin> set (resourceId d) \<longrightarrow>
      resourceCloudflareLoadBalancerImport client rejects d =
        \<lparr>returned = Some (InvalidId (resourceId d)), state = d, calls = []\<rparr>)"
proof -
  have split: "calls (resourceCloudflareLoadBalancerImport client rejects d) =
        [Call_ZoneIDByName z] \<and>
      (\<forall>zoneID. ZoneIDByName client z = Inr zoneID \<longrightarrow>
         returned (resourceCloudflareLoadBalancerImport client rejects d) = None \<and>
         resourceId (state (resourceCloudflareLoadBalancerImport client rejects d)) = r \<and>
         (\<not> rejects ''zone'' \<longrightarrow>
            zone (state (resourceCloudflareLoadBalancerImport client rejects d)) = z))"
    if "CHR ''/'' \<notin> set z" and "resourceId d = z @ ''/'' @ r" for z r
  proof -
    from that have "SplitN2 (resourceId d) (CHR ''/'') = [z, r]"
      by (simp add: SplitN2_first_sep)
    then show ?thesis
      by (cases "ZoneIDByName client z")
         (simp_all add: resourceCloudflareLoadBalancerImport_def Let_def Set_attr_def)
  qed
  have none: "resourceCloudflareLoadBalancerImport client rejects d =
        \<lparr>returned = Some (InvalidId (resourceId d)), state = d, calls = []\<rparr>"
    if "CHR ''/'' \<notin> set (resourceId d)"
    using that by (simp add: resourceCloudflareLoadBalancerImport_def SplitN2_no_sep)
  have "CHR ''/'' \<notin> set ''myzone''" by simp
  from split [OF this, of "''abc123''"] split [of zoneName rest] none
  show ?thesis by simp
qed

theorem Import_splits_on_first_separator_witness:
  "calls (resourceCloudflareLoadBalancerImport
            (sample_client (Inr sample_balancer) (Inr sample_balancer)) no_rejects
            (sample_data\<lparr>resourceId := ''example.com/abc/123''\<rparr>)) =
     [Call_ZoneIDByName ''example.com''] \<and>
   resourceId (state (resourceCloudflareLoadBalancerImport
            (sample_client (Inr sample_balancer) (Inr sample_balancer)) no_rejects
            (sample_data\<lparr>resourceId := ''example.com/abc/123''\<rparr>))) = ''abc/123'' \<and>
   resourceCloudflareLoadBalancerImport
      (sample_client (Inr sample_balancer) (Inr sample_balancer)) no_rejects
      (sample_data\<lparr>resourceId := ''abc123''\<rparr>) =
     \<lparr>returned = Some (InvalidId ''abc123''), state = sample_data\<lparr>resourceId := ''abc123''\<rparr>,
      calls = []\<rparr>"
proof -
  let ?c = "sample_client (Inr sample_balancer) (Inr sample_balancer)"
  let ?d = "sample_data\<lparr>resourceId := ''example.com/abc/123''\<rparr>"
  let ?e = "sample_data\<lparr>resourceId := ''abc123''\<rparr>"
  have a: "CHR ''/'' \<notin> set ''example.com'' \<and> resourceId ?d = ''example.com'' @ ''/'' @ ''abc/123''"
    by simp
  have b: "ZoneIDByName ?c ''example.com'' = Inr ''z1''" by (simp add: sample_client_def)
  have c: "CHR ''/'' \<notin> set (resourceId ?e)" by simp
  from Import_splits_on_first_separator [of ?d ?c no_rejects "''example.com''" "''abc/123''"] a b
  have "calls (resourceCloudflareLoadBalancerImport ?c no_rejects ?d) =
          [Call_ZoneIDByName ''example.com'']"
    and "resourceId (state (resourceCloudflareLoadBalancerImport ?c no_rejects ?d)) = ''abc/123''"
    by blast+
  moreover
  from Import_splits_on_first_separator [of ?e ?c no_rejects "[]" "[]"] c
  have "resourceCloudflareLoadBalancerImport ?c no_rejects ?e =
     \<lparr>returned = Some (InvalidId ''abc123''), state = ?e, calls = []\<rparr>"
    by simp
  ultimately show ?thesis by blast
qed

subsection \<open>Zone resolution in Create\<close>

lemma Set_attr_keeps:
  "(\<And>s. f (write s) = f s) \<Longrightarrow> f (Set_attr rejects key write d) = f d"
  by (simp add: Set_attr_def)

lemma Read_populate_zone_id: "zone_id (snd (Read_populate rejects lb d)) = zone_id d"
  by (cases "Enabled lb"; cases "CreatedOn lb"; cases "ModifiedOn lb")
     (simp_all add: Read_populate_def Let_def Set_attr_keeps)

lemma Read_zone_id:
  "zone_id (state (resourceCloudflareLoadBalancerRead client rejects d)) = zone_id d"
  by (simp add: resourceCloudflareLoadBalancerRead_def Let_def Read_populate_zone_id
           split: sum.splits)

lemma Create_remote_same_zone_id:
  "zone_id (state (Create_remote client rejects d (zone_id d) lb)) = zone_id d"
  by (auto simp: Create_remote_def Let_def after_calls_simps Read_zone_id Set_attr_def
           split: sum.splits)

text \<open>
  Claim C10, as the code has it. With a non-empty zone identifier Create never looks the
  zone name up, even when a zone name is given too: its creation request goes out under
  that identifier, and the zone identifier of the resource data stays that identifier.
  Create looks the zone name up exactly when the zone identifier is empty, the zone name
  is not empty and the request object was built without a geo-pool error.
\<close>

theorem Create_zone_resolution:
  "(zone_id d \<noteq> [] \<longrightarrow>
      (\<forall>zoneName. Call_ZoneIDByName zoneName \<notin>
          set (calls (resourceCloudflareLoadBalancerCreate client rejects d))) \<and>
      (\<forall>zoneID sent. Call_CreateLoadBalancer zoneID sent \<in>
          set (calls (resourceCloudflareLoadBalancerCreate client rejects d)) \<longrightarrow>
          zoneID = zone_id d) \<and>
      (\<forall>newLoadBalancer. Create_newLoadBalancer d = Inr newLoadBalancer \<longrightarrow>
          Call_CreateLoadBalancer (zone_id d) newLoadBalancer \<in>
            set (calls (resourceCloudflareLoadBalancerCreate client rejects d))) \<and>
      zone_id (state (resourceCloudflareLoadBalancerCreate client rejects d)) = zone_id d) \<and>
   ((\<exists>zoneName. Call_ZoneIDByName zoneName \<in>
        set (calls (resourceCloudflareLoadBalancerCreate client rejects d))) \<longleftrightarrow>
    zone_id d = [] \<and> zone d \<noteq> [] \<and>
    (\<exists>newLoadBalancer. Create_newLoadBalancer d = Inr newLoadBalancer))"
proof (intro conjI impI)
  let ?run = "resourceCloudflareLoadBalancerCreate client rejects d"
  assume given: "zone_id d \<noteq> []"
  have shape: "?run = \<lparr>returned = returned ?run, state = d, calls = []\<rparr> \<and>
                 (\<exists>e. Create_newLoadBalancer d = Inl e) \<or>
               (\<exists>lb. Create_newLoadBalancer d = Inr lb \<and>
                     ?run = Create_remote client rejects d (zone_id d) lb)"
    using given
    by (cases "Create_newLoadBalancer d")
       (simp_all add: resourceCloudflareLoadBalancerCreate_def Let_def)
  show "\<forall>zoneName. Call_ZoneIDByName zoneName \<notin> set (calls ?run)"
    using shape by (metis Create_remote_no_lookup empty_iff empty_set outcome.select_convs(3))
  show "\<forall>zoneID sent. Call_CreateLoadBalancer zoneID sent \<in> set (calls ?run) \<longrightarrow>
          zoneID = zone_id d"
    using shape
    by (metis Create_remote_create_call empty_iff empty_set outcome.select_convs(3))
  show "\<forall>newLoadBalancer. Create_newLoadBalancer d = Inr newLoadBalancer \<longrightarrow>
          Call_CreateLoadBalancer (zone_id d) newLoadBalancer \<in> set (calls ?run)"
    using shape by (auto simp: Create_remote_first_call)
  show "zone_id (state ?run) = zone_id d"
    using shape by (metis Create_remote_same_zone_id outcome.select_convs(2))
next
  let ?run = "resourceCloudflareLoadBalancerCreate client rejects d"
  show "(\<exists>zoneName. Call_ZoneIDByName zoneName \<in> set (calls ?run)) \<longleftrightarrow>
    zone_id d = [] \<and> zone d \<noteq> [] \<and>
    (\<exists>newLoadBalancer. Create_newLoadBalancer d = Inr newLoadBalancer)"
  proof
    assume "\<exists>zoneName. Call_ZoneIDByName zoneName \<in> set (calls ?run)"
    then obtain n where n: "Call_ZoneIDByName n \<in> set (calls ?run)" by blast
    from Create_calls_cases [of client rejects d] n
    show "zone_id d = [] \<and> zone d \<noteq> [] \<and>
          (\<exists>newLoadBalancer. Create_newLoadBalancer d = Inr newLoadBalancer)"
      by (auto simp: Create_remote_no_lookup)
  next
    assume a: "zone_id d = [] \<and> zone d \<noteq> [] \<and>
          (\<exists>newLoadBalancer. Create_newLoadBalancer d = Inr newLoadBalancer)"
    then obtain lb where lb: "Create_newLoadBalancer d = Inr lb" by blast
    have "Call_ZoneIDByName (zone d) \<in> set (calls ?run)"
      using a lb
      by (cases "ZoneIDByName client (zone d)")
         (simp_all add: resourceCloudflareLoadBalancerCreate_def Let_def after_calls_simps)
    then show "\<exists>zoneName. Call_ZoneIDByName zoneName \<in> set (calls ?run)" by blast
  qed
qed

theorem Create_zone_resolution_witness:
  "Call_ZoneIDByName ''example.com'' \<notin>
     set (calls (resourceCloudflareLoadBalancerCreate
        (sample_client (Inr sample_balancer) (Inr sample_balancer)) no_rejects
        (sample_data\<lparr>zone_id := ''z9''\<rparr>))) \<and>
   zone_id (state (resourceCloudflareLoadBalancerCreate
        (sample_client (Inr sample_balancer) (Inr sample_balancer)) no_rejects
        (sample_data\<lparr>zone_id := ''z9''\<rparr>))) = ''z9'' \<and>
   (\<exists>zoneName. Call_ZoneIDByName zoneName \<in>
     set (calls (resourceCloudflareLoadBalancerCreate
        (sample_client (Inr sample_balancer) (Inr sample_balancer)) no_rejects sample_data)))"
proof -
  let ?c = "sample_client (Inr sample_balancer) (Inr sample_balancer)"
  let ?d = "sample_data\<lparr>zone_id := ''z9''\<rparr>"
  have given: "zone_id ?d \<noteq> []" and id: "zone_id ?d = ''z9''" by simp_all
  have need: "zone_id sample_data = [] \<and> zone sample_data \<noteq> [] \<and>
      (\<exists>newLoadBalancer. Create_newLoadBalancer sample_data = Inr newLoadBalancer)"
    using sample_request by (simp add: sample_data_def)
  from Create_zone_resolution [of ?d ?c no_rejects] given
  have "Call_ZoneIDByName ''example.com'' \<notin>
          set (calls (resourceCloudflareLoadBalancerCreate ?c no_rejects ?d))"
    and "zone_id (state (resourceCloudflareLoadBalancerCreate ?c no_rejects ?d)) = zone_id ?d"
    by blast+
  moreover
  from Create_zone_resolution [of sample_data ?c no_rejects] need
  have "\<exists>zoneName. Call_ZoneIDByName zoneName \<in>
     set (calls (resourceCloudflareLoadBalancerCreate ?c no_rejects sample_data))"
    by blast
  ultimately show ?thesis by (simp only: id) blast
qed

text \<open>
  Claim C10 as written, with the lookup happening whenever the zone identifier is empty,
  fails on two inputs: with the zone name empty as well, or with a duplicate location in
  \<^verbatim>\<open>region_pools\<close>, Create returns before any remote call.
\<close>

theorem Create_lookup_not_whenever_zone_id_empty:
  "zone_id (sample_data\<lparr>zone := []\<rparr>) = [] \<and>
   calls (resourceCloudflareLoadBalancerCreate
            (sample_client (Inr sample_balancer) (Inr sample_balancer)) no_rejects
            (sample_data\<lparr>zone := []\<rparr>)) = [] \<and>
   zone_id (sample_data\<lparr>region_pools :=
      [\<lparr>geo_field = ''region'', location = ''WNAM'', pool_ids = [''p1'']\<rparr>,
       \<lparr>geo_field = ''region'', location = ''WNAM'', pool_ids = [''p2'']\<rparr>]\<rparr>) = [] \<and>
   calls (resourceCloudflareLoadBalancerCreate
            (sample_client (Inr sample_balancer) (Inr sample_balancer)) no_rejects
            (sample_data\<lparr>region_pools :=
      [\<lparr>geo_field = ''region'', location = ''WNAM'', pool_ids = [''p1'']\<rparr>,
       \<lparr>geo_field = ''region'', location = ''WNAM'', pool_ids = [''p2'']\<rparr>]\<rparr>)) = []"
  by (simp add: resourceCloudflareLoadBalancerCreate_def Create_newLoadBalancer_def
                expandGeoPools_def sample_data_def Let_def)

end
